theory Spec2Isabelle
  imports Main "HOL-Library.AList" "HOL-Library.Sublist" "HOL-Library.Char_ord"
    "HOL-Library.List_Lexorder"
begin

section \<open>Repository unit association queries (pulp, unit_association_query.py)\<close>

text \<open>
  The query manager is a pipeline of Python generators over pymongo cursors. A generator
  is modelled by the trace it produces when it is driven to its end: the storage calls it
  makes and the elements it yields, in the order in which a consumer pulling one element
  at a time observes them, and the exception that ends it, if any. A stage that stops
  pulling from its upstream cuts the upstream trace at that point, so that the calls of
  elements never pulled do not occur.
\<close>

subsection \<open>Values, documents and storage calls\<close>

text \<open>The two sort directions of pymongo, \<^verbatim>\<open>pymongo.ASCENDING\<close> and \<^verbatim>\<open>pymongo.DESCENDING\<close>.\<close>

datatype direction = ASCENDING | DESCENDING

type_synonym sort_key = "string \<times> direction"

definition SORT_ASCENDING :: direction where
  "SORT_ASCENDING = ASCENDING"

text \<open>
  A query document: a dictionary from field names to a string or to an
  \<^verbatim>\<open>{'$in': [...]}\<close> clause. \<^verbatim>\<open>spec[k] = v\<close> is \<^const>\<open>AList.update\<close>.
\<close>

datatype bson = BStr string | BIn "string list"

type_synonym mongo_spec = "(string \<times> bson) list"

text \<open>
  The value of a \<^verbatim>\<open>skip\<close> or \<^verbatim>\<open>limit\<close> argument: \<^verbatim>\<open>None\<close>, an int, or any other
  Python value (given by its repr).
\<close>

datatype pyarg = PyNone | PyInt int | PyOther string

datatype error = AssertionError | KeyError string | TypeError

text \<open>A unit document of a type's unit collection; \<open>u_id\<close> is its \<^verbatim>\<open>'_id'\<close>.\<close>

record unit_rec =
  u_id :: string
  u_body :: "(string \<times> string) list"

datatype collection = RepoContentUnit | TypeUnits string

text \<open>
  A pymongo cursor: the collection, the query document and projection given to
  \<^verbatim>\<open>find\<close>, and the keys given to \<^verbatim>\<open>sort\<close> (\<open>[]\<close> when \<^verbatim>\<open>sort\<close> was not called).
\<close>

record cursor =
  c_collection :: collection
  c_spec :: mongo_spec
  c_fields :: "string list option"
  c_sort :: "sort_key list"

text \<open>
  What flows through the unit stages: a unit document, or a pymongo cursor object over
  the unit collection of a type.
\<close>

datatype item = UnitDoc unit_rec | CursorObj cursor

text \<open>
  An association document of the \<^verbatim>\<open>RepoContentUnit\<close> collection. \<open>metadata\<close> is the key
  that \<^verbatim>\<open>_merged_units\<close> sets; it is \<open>None\<close> while the key is absent.
\<close>

record association =
  unit_type_id :: string
  unit_id :: string
  repo_id :: string
  owner_type :: string
  owner_id :: string
  created :: int
  updated :: int
  metadata :: "item option"

text \<open>The calls against the storage layer: \<^verbatim>\<open>find\<close>, \<^verbatim>\<open>sort\<close> and \<^verbatim>\<open>distinct\<close>.\<close>

datatype call =
    Find collection mongo_spec "string list option"
  | Sort collection "sort_key list"
  | Distinct collection string

subsection \<open>Generators as traces\<close>

datatype 'a event = Call call | Yield 'a

type_synonym 'a gen = "'a event list \<times> error option"

fun elements :: "'a event list \<Rightarrow> 'a list" where
  "elements [] = []"
| "elements (Call c # evs) = elements evs"
| "elements (Yield x # evs) = x # elements evs"

fun calls :: "'a event list \<Rightarrow> call list" where
  "calls [] = []"
| "calls (Call c # evs) = c # calls evs"
| "calls (Yield x # evs) = calls evs"

definition yielded :: "'a gen \<Rightarrow> 'a list" where
  "yielded g = elements (fst g)"

definition raised :: "'a gen \<Rightarrow> error option" where
  "raised g = snd g"

text \<open>An iterator over a list held in memory: no storage call, no exception.\<close>

definition gen_of_list :: "'a list \<Rightarrow> 'a gen" where
  "gen_of_list xs = (map Yield xs, None)"

definition emit :: "'a event \<Rightarrow> 'a gen \<Rightarrow> 'a gen" where
  "emit ev g = (ev # fst g, snd g)"

subsection \<open>\<^verbatim>\<open>_with_skip_and_limit\<close>\<close>

text \<open>
  The two assertions at the head of the generator body: the argument is \<^verbatim>\<open>None\<close> or a
  non-negative int.
\<close>

definition valid_arg :: "pyarg \<Rightarrow> bool" where
  "valid_arg a = (case a of PyNone \<Rightarrow> True | PyInt i \<Rightarrow> 0 \<le> i | PyOther s \<Rightarrow> False)"

text \<open>
  Python truthiness of an argument that passed the assertion (\<^verbatim>\<open>None\<close> and \<^verbatim>\<open>0\<close> are
  false), and its integer value.
\<close>

definition truthy :: "pyarg \<Rightarrow> bool" where
  "truthy a = (case a of PyNone \<Rightarrow> False | PyInt i \<Rightarrow> i \<noteq> 0 | PyOther s \<Rightarrow> True)"

definition int_of :: "pyarg \<Rightarrow> int" where
  "int_of a = (case a of PyInt i \<Rightarrow> i | _ \<Rightarrow> 0)"

text \<open>
  The \<^verbatim>\<open>for\<close> loop, with the counters \<^verbatim>\<open>generated_elements\<close> and \<^verbatim>\<open>skipped_elements\<close>.
  \<^verbatim>\<open>raise StopIteration()\<close> ends the generator (Python 2) once an element has been pulled
  from the upstream; the upstream is not pulled again.
\<close>

fun skip_limit_loop ::
  "pyarg \<Rightarrow> pyarg \<Rightarrow> int \<Rightarrow> int \<Rightarrow> 'a event list \<Rightarrow> error option \<Rightarrow> 'a gen" where
  "skip_limit_loop skip limit generated_elements skipped_elements [] err = ([], err)"
| "skip_limit_loop skip limit generated_elements skipped_elements (Call c # evs) err =
     emit (Call c) (skip_limit_loop skip limit generated_elements skipped_elements evs err)"
| "skip_limit_loop skip limit generated_elements skipped_elements (Yield element # evs) err =
     (if truthy limit \<and> generated_elements - skipped_elements = int_of limit then ([], None)
      else if truthy skip \<and> skipped_elements < int_of skip
        then skip_limit_loop skip limit generated_elements (skipped_elements + 1) evs err
      else emit (Yield element)
             (skip_limit_loop skip limit (generated_elements + 1) skipped_elements evs err))"

definition with_skip_and_limit :: "'a gen \<Rightarrow> pyarg \<Rightarrow> pyarg \<Rightarrow> 'a gen" where
  "with_skip_and_limit iterator skip limit =
     (if \<not> valid_arg skip then ([], Some AssertionError)
      else if \<not> valid_arg limit then ([], Some AssertionError)
      else skip_limit_loop skip limit 0 0 (fst iterator) (snd iterator))"

subsection \<open>Criteria, cursors and the storage layer\<close>

text \<open>
  \<^verbatim>\<open>UnitAssociationCriteria\<close>, by the attributes the manager reads. \<open>type_ids\<close> is \<open>[]\<close> for
  both \<^verbatim>\<open>None\<close> and the empty list (the manager only tests its truth value);
  \<open>association_sort\<close> keeps the two apart, since \<^verbatim>\<open>get_units\<close> tests it against \<^verbatim>\<open>None\<close>.
\<close>

record criteria =
  type_ids :: "string list"
  association_filters :: mongo_spec
  unit_filters :: mongo_spec
  association_sort :: "sort_key list option"
  unit_sort :: "sort_key list option"
  limit :: pyarg
  skip :: pyarg
  association_fields :: "string list option"
  unit_fields :: "string list option"
  remove_duplicates :: bool

text \<open>
  The collaborators that are not part of the manager: the documents a cursor yields when
  it is iterated (association collection, unit collections), the unit key of a type
  (\<^verbatim>\<open>types_db.type_units_unit_key\<close>) and the criteria that
  \<^verbatim>\<open>UnitAssociationCriteria()\<close> constructs.
\<close>

record storage =
  assoc_docs :: "cursor \<Rightarrow> association list"
  unit_docs :: "cursor \<Rightarrow> unit_rec list"
  type_units_unit_key :: "string \<Rightarrow> string list"
  default_criteria :: criteria

text \<open>
  What a call of the manager leaves behind: the criteria object as it is after the call,
  the storage calls made before the call returned, and the value returned.
\<close>

record 'a outcome =
  criteria_after :: criteria
  calls_made :: "call list"
  returned :: 'a

subsection \<open>\<^verbatim>\<open>_unit_associations_cursor\<close>\<close>

definition created_sort_tuple :: sort_key where
  "created_sort_tuple = (''created'', SORT_ASCENDING)"

text \<open>
  \<^verbatim>\<open>sort = criteria.association_sort or []\<close> binds \<^verbatim>\<open>sort\<close> to the caller's own list
  when that list is not empty, and to a fresh list otherwise; \<^verbatim>\<open>sort.insert(0, ...)\<close>
  then changes the list in place. \<open>aliased\<close> says which of the two happened, and the
  criteria returned carry the list as the insertion leaves it.
\<close>

definition unit_associations_cursor :: "string \<Rightarrow> criteria \<Rightarrow> cursor outcome" where
  "unit_associations_cursor repo c =
     (let spec = AList.update ''repo_id'' (BStr repo) (association_filters c);
          spec = (if type_ids c \<noteq> []
                  then AList.update ''unit_type_id'' (BIn (type_ids c)) spec else spec);
          aliased = (case association_sort c of None \<Rightarrow> False | Some s \<Rightarrow> s \<noteq> []);
          sort_keys = (case association_sort c of None \<Rightarrow> [] | Some s \<Rightarrow> s);
          sort_keys = (if created_sort_tuple \<notin> set sort_keys
                       then created_sort_tuple # sort_keys else sort_keys)
      in \<lparr>criteria_after = (if aliased then c\<lparr>association_sort := Some sort_keys\<rparr> else c),
          calls_made = [Find RepoContentUnit spec (association_fields c),
                        Sort RepoContentUnit sort_keys],
          returned = \<lparr>c_collection = RepoContentUnit, c_spec = spec,
                      c_fields = association_fields c, c_sort = sort_keys\<rparr>\<rparr>)"

subsection \<open>\<^verbatim>\<open>_unit_associations_no_duplicates\<close>\<close>

text \<open>\<^verbatim>\<open>sep.join(parts)\<close> on strings.\<close>

fun py_join :: "string \<Rightarrow> string list \<Rightarrow> string" where
  "py_join sep [] = []"
| "py_join sep [x] = x"
| "py_join sep (x # y # zs) = x @ sep @ py_join sep (y # zs)"

definition association_id :: "association \<Rightarrow> string" where
  "association_id unit_association =
     py_join ''+'' [unit_type_id unit_association, unit_id unit_association]"

fun no_duplicates_loop ::
  "string set \<Rightarrow> association event list \<Rightarrow> error option \<Rightarrow> association gen" where
  "no_duplicates_loop previously_generated [] err = ([], err)"
| "no_duplicates_loop previously_generated (Call c # evs) err =
     emit (Call c) (no_duplicates_loop previously_generated evs err)"
| "no_duplicates_loop previously_generated (Yield unit_association # evs) err =
     (if association_id unit_association \<in> previously_generated
      then no_duplicates_loop previously_generated evs err
      else emit (Yield unit_association)
             (no_duplicates_loop
                (insert (association_id unit_association) previously_generated) evs err))"

definition unit_associations_no_duplicates :: "association gen \<Rightarrow> association gen" where
  "unit_associations_no_duplicates iterator =
     no_duplicates_loop {} (fst iterator) (snd iterator)"

subsection \<open>\<^verbatim>\<open>_unit_type_ids_for_repo\<close>\<close>

text \<open>
  The value of \<^verbatim>\<open>unit_associations.distinct('unit_type_id')\<close> is dropped and the cursor is
  iterated as it is: one type id for each association document.
\<close>

definition unit_type_ids_for_repo :: "storage \<Rightarrow> string \<Rightarrow> call list \<times> string list" where
  "unit_type_ids_for_repo st repo =
     (let unit_associations =
            \<lparr>c_collection = RepoContentUnit, c_spec = [(''repo_id'', BStr repo)],
             c_fields = Some [''unit_type_id''], c_sort = []\<rparr>
      in ([Find RepoContentUnit [(''repo_id'', BStr repo)] (Some [''unit_type_id'']),
           Distinct RepoContentUnit ''unit_type_id''],
          map unit_type_id (assoc_docs st unit_associations)))"

subsection \<open>\<^verbatim>\<open>_associated_units_by_type_cursor\<close>\<close>

definition associated_units_by_type_cursor ::
  "storage \<Rightarrow> string \<Rightarrow> criteria \<Rightarrow> string list \<Rightarrow> call list \<times> cursor" where
  "associated_units_by_type_cursor st type_id c associated_unit_ids =
     (let spec = AList.update ''_id'' (BIn associated_unit_ids) (unit_filters c);
          key_sort = map (\<lambda>u. (u, SORT_ASCENDING)) (type_units_unit_key st type_id);
          sort_keys = (case unit_sort c of None \<Rightarrow> key_sort
                       | Some s \<Rightarrow> if s \<noteq> [] then s else key_sort)
      in ([Find (TypeUnits type_id) spec (unit_fields c), Sort (TypeUnits type_id) sort_keys],
          \<lparr>c_collection = TypeUnits type_id, c_spec = spec,
           c_fields = unit_fields c, c_sort = sort_keys\<rparr>))"

subsection \<open>\<^verbatim>\<open>_association_ordered_units\<close> and \<^verbatim>\<open>_merged_units\<close>\<close>

text \<open>
  \<^verbatim>\<open>u['_id']\<close>: the id of a unit document; a pymongo cursor refuses a string index with
  a \<^verbatim>\<open>TypeError\<close>.
\<close>

definition item_id :: "item \<Rightarrow> error + string" where
  "item_id u = (case u of UnitDoc d \<Rightarrow> Inr (u_id d) | CursorObj cur \<Rightarrow> Inl TypeError)"

text \<open>\<^verbatim>\<open>dict((u['_id'], u) for u in associated_units)\<close>: the whole upstream is consumed.\<close>

fun units_by_id ::
  "item event list \<Rightarrow> error option \<Rightarrow> (string \<rightharpoonup> item)
     \<Rightarrow> call list \<times> (error + (string \<rightharpoonup> item))" where
  "units_by_id [] err m = ([], case err of Some e \<Rightarrow> Inl e | None \<Rightarrow> Inr m)"
| "units_by_id (Call c # evs) err m =
     (let r = units_by_id evs err m in (c # fst r, snd r))"
| "units_by_id (Yield u # evs) err m =
     (case item_id u of Inl e \<Rightarrow> ([], Inl e)
      | Inr k \<Rightarrow> units_by_id evs err (m(k \<mapsto> u)))"

fun ordered_loop :: "(string \<rightharpoonup> item) \<Rightarrow> string list \<Rightarrow> item gen" where
  "ordered_loop associated_units_by_id [] = ([], None)"
| "ordered_loop associated_units_by_id (uid # ids) =
     (case associated_units_by_id uid of
        None \<Rightarrow> ([], Some (KeyError uid))
      | Some u \<Rightarrow> emit (Yield u) (ordered_loop associated_units_by_id ids))"

definition association_ordered_units :: "string list \<Rightarrow> item gen \<Rightarrow> item gen" where
  "association_ordered_units associated_unit_ids associated_units =
     (let r = units_by_id (fst associated_units) (snd associated_units) Map.empty
      in case snd r of
           Inl e \<Rightarrow> (map Call (fst r), Some e)
         | Inr associated_units_by_id \<Rightarrow>
             (let out = ordered_loop associated_units_by_id associated_unit_ids
              in (map Call (fst r) @ fst out, snd out)))"

text \<open>
  \<open>unit_associations_by_id\<close> is the ordered dictionary built by \<^verbatim>\<open>get_units\<close>, an
  association list in insertion order. The record yielded is the association as it is
  at the moment of the \<^verbatim>\<open>yield\<close>, with \<^verbatim>\<open>'metadata'\<close> just set.
\<close>

fun merged_loop ::
  "(string \<times> association) list \<Rightarrow> item event list \<Rightarrow> error option \<Rightarrow> association gen" where
  "merged_loop unit_associations_by_id [] err = ([], err)"
| "merged_loop unit_associations_by_id (Call c # evs) err =
     emit (Call c) (merged_loop unit_associations_by_id evs err)"
| "merged_loop unit_associations_by_id (Yield u # evs) err =
     (case item_id u of
        Inl e \<Rightarrow> ([], Some e)
      | Inr k \<Rightarrow>
          (case map_of unit_associations_by_id k of
             None \<Rightarrow> ([], Some (KeyError k))
           | Some a \<Rightarrow> emit (Yield (a\<lparr>metadata := Some u\<rparr>))
                        (merged_loop unit_associations_by_id evs err)))"

definition merged_units :: "(string \<times> association) list \<Rightarrow> item gen \<Rightarrow> association gen" where
  "merged_units unit_associations_by_id associated_units =
     merged_loop unit_associations_by_id (fst associated_units) (snd associated_units)"

subsection \<open>\<^verbatim>\<open>get_units\<close> and its aliases\<close>

text \<open>\<^verbatim>\<open>OrderedDict(pairs)\<close>: a key keeps the place of its first insertion and the value of its last.\<close>

definition ordered_dict :: "(string \<times> 'v) list \<Rightarrow> (string \<times> 'v) list" where
  "ordered_dict pairs = foldl (\<lambda>d kv. AList.update (fst kv) (snd kv) d) [] pairs"

text \<open>\<^verbatim>\<open>itertools.chain(*iterables)\<close>: the iterables one after another.\<close>

fun itertools_chain :: "'a gen list \<Rightarrow> 'a gen" where
  "itertools_chain [] = ([], None)"
| "itertools_chain (g # gs) =
     (case snd g of
        Some e \<Rightarrow> (fst g, Some e)
      | None \<Rightarrow> (let r = itertools_chain gs in (fst g @ fst r, snd r)))"

text \<open>
  The generator expression of lines 143-144: for each type id, in turn, the call of
  \<^verbatim>\<open>_associated_units_by_type_cursor\<close> and the cursor object it returns.
\<close>

fun cursors_by_type ::
  "storage \<Rightarrow> criteria \<Rightarrow> string list \<Rightarrow> string list \<Rightarrow> item event list" where
  "cursors_by_type st c associated_unit_ids [] = []"
| "cursors_by_type st c associated_unit_ids (type_id # unit_type_ids) =
     (let r = associated_units_by_type_cursor st type_id c associated_unit_ids
      in map Call (fst r) @ Yield (CursorObj (snd r))
           # cursors_by_type st c associated_unit_ids unit_type_ids)"

text \<open>Lines 140-141: the type ids that \<^verbatim>\<open>get_units\<close> queries, with the calls made to find them.\<close>

definition unit_type_ids_used :: "storage \<Rightarrow> string \<Rightarrow> criteria \<Rightarrow> call list \<times> string list" where
  "unit_type_ids_used st repo c =
     (let r = (if type_ids c \<noteq> [] then ([], type_ids c) else unit_type_ids_for_repo st repo)
      in (fst r, sort (snd r)))"

text \<open>
  Lines 143-144: \<^verbatim>\<open>itertools.chain\<close> is given one iterable, the generator expression
  itself.
\<close>

definition chained_units ::
  "storage \<Rightarrow> criteria \<Rightarrow> string list \<Rightarrow> string list \<Rightarrow> item gen" where
  "chained_units st c associated_unit_ids unit_type_ids =
     itertools_chain [(cursors_by_type st c associated_unit_ids unit_type_ids, None)]"

datatype result = Listed "association list" | Generator "association gen" | Raised error

definition get_units ::
  "storage \<Rightarrow> string \<Rightarrow> criteria option \<Rightarrow> bool \<Rightarrow> result outcome" where
  "get_units st repo criteria as_generator =
     (let c0 = (case criteria of Some c \<Rightarrow> c | None \<Rightarrow> default_criteria st);
          cur = unit_associations_cursor repo c0;
          c = criteria_after cur;
          unit_associations_generator = gen_of_list (assoc_docs st (returned cur));
          unit_associations_generator =
            (if remove_duplicates c
             then unit_associations_no_duplicates unit_associations_generator
             else unit_associations_generator);
          unit_associations_by_id =
            ordered_dict (map (\<lambda>u. (unit_id u, u)) (yielded unit_associations_generator));
          types = unit_type_ids_used st repo c;
          keys = map fst unit_associations_by_id;
          units_generator = chained_units st c keys (snd types);
          units_generator = with_skip_and_limit units_generator (skip c) (limit c);
          units_generator =
            (if association_sort c \<noteq> None
             then association_ordered_units keys units_generator else units_generator);
          units_generator = merged_units unit_associations_by_id units_generator;
          eager = calls_made cur @ fst types
      in if as_generator
         then \<lparr>criteria_after = c, calls_made = eager, returned = Generator units_generator\<rparr>
         else \<lparr>criteria_after = c, calls_made = eager @ calls (fst units_generator),
               returned = (case snd units_generator of
                             Some e \<Rightarrow> Raised e
                           | None \<Rightarrow> Listed (elements (fst units_generator)))\<rparr>)"

definition get_units_across_types ::
  "storage \<Rightarrow> string \<Rightarrow> criteria option \<Rightarrow> bool \<Rightarrow> result outcome" where
  "get_units_across_types st repo criteria as_generator =
     get_units st repo criteria as_generator"

definition get_units_by_type ::
  "storage \<Rightarrow> string \<Rightarrow> string \<Rightarrow> criteria option \<Rightarrow> bool \<Rightarrow> result outcome" where
  "get_units_by_type st repo type_id criteria as_generator =
     (let c = (case criteria of Some c \<Rightarrow> c | None \<Rightarrow> default_criteria st);
          c = c\<lparr>type_ids := [type_id]\<rparr>
      in get_units st repo (Some c) as_generator)"

subsection \<open>Auxiliary notions used in the statements\<close>

text \<open>The identity of an association for deduplication: its type id and unit id.\<close>

definition identity_key :: "association \<Rightarrow> string \<times> string" where
  "identity_key a = (unit_type_id a, unit_id a)"

text \<open>The collection a storage call is made against.\<close>

fun call_collection :: "call \<Rightarrow> collection" where
  "call_collection (Find coll spec projection) = coll"
| "call_collection (Sort coll sort_keys) = coll"
| "call_collection (Distinct coll field) = coll"

text \<open>
  The dictionary that \<^verbatim>\<open>_association_ordered_units\<close> builds from a stream of unit
  documents, starting from \<open>m\<close>: a later document replaces an earlier one with its id.
\<close>

definition index_units :: "unit_rec list \<Rightarrow> (string \<rightharpoonup> item) \<Rightarrow> (string \<rightharpoonup> item)" where
  "index_units ds m = fold (\<lambda>d m. m(u_id d \<mapsto> UnitDoc d)) ds m"

subsection \<open>A storage held in memory, for the examples\<close>

definition mk_assoc :: "string \<Rightarrow> string \<Rightarrow> int \<Rightarrow> association" where
  "mk_assoc t u n =
     \<lparr>unit_type_id = t, unit_id = u, repo_id = ''repo-1'', owner_type = ''user'',
      owner_id = ''admin'', created = n, updated = n, metadata = None\<rparr>"

definition mk_unit :: "string \<Rightarrow> unit_rec" where
  "mk_unit u = \<lparr>u_id = u, u_body = []\<rparr>"

text \<open>
  How the example storage reads a query document: the \<^verbatim>\<open>repo_id\<close> and the
  \<^verbatim>\<open>unit_type_id\<close> clause select associations, the \<^verbatim>\<open>_id\<close> clause selects units.
\<close>

definition spec_matches :: "mongo_spec \<Rightarrow> association \<Rightarrow> bool" where
  "spec_matches spec a =
     ((case map_of spec ''repo_id'' of Some (BStr r) \<Rightarrow> repo_id a = r | _ \<Rightarrow> True) \<and>
      (case map_of spec ''unit_type_id'' of
         Some (BIn ts) \<Rightarrow> unit_type_id a \<in> set ts | _ \<Rightarrow> True))"

definition id_matches :: "mongo_spec \<Rightarrow> unit_rec \<Rightarrow> bool" where
  "id_matches spec u =
     (case map_of spec ''_id'' of Some (BIn ids) \<Rightarrow> u_id u \<in> set ids | _ \<Rightarrow> True)"

text \<open>A criteria object with no restriction at all.\<close>

definition plain_criteria :: criteria where
  "plain_criteria =
     \<lparr>type_ids = [], association_filters = [], unit_filters = [],
      association_sort = None, unit_sort = None, limit = PyNone, skip = PyNone,
      association_fields = None, unit_fields = None, remove_duplicates = True\<rparr>"

text \<open>
  The associations are listed in the order of \<^verbatim>\<open>created\<close>, which is the order the
  examples sort by; the units of a type are listed in the order of their key.
\<close>

definition mem_storage ::
  "association list \<Rightarrow> (string \<times> unit_rec list) list \<Rightarrow> storage" where
  "mem_storage associations units =
     \<lparr>assoc_docs = (\<lambda>cur. filter (spec_matches (c_spec cur)) associations),
      unit_docs = (\<lambda>cur. case c_collection cur of
                      TypeUnits t \<Rightarrow>
                        filter (id_matches (c_spec cur))
                          (case map_of units t of Some ds \<Rightarrow> ds | None \<Rightarrow> [])
                    | RepoContentUnit \<Rightarrow> []),
      type_units_unit_key = (\<lambda>t. [''name'']),
      default_criteria = plain_criteria\<rparr>"

text \<open>A repository with three units of two types.\<close>

definition two_type_storage :: storage where
  "two_type_storage =
     mem_storage
       [mk_assoc ''zeta'' ''u1'' 1, mk_assoc ''alpha'' ''u2'' 2, mk_assoc ''zeta'' ''u3'' 3]
       [(''alpha'', [mk_unit ''u2'']), (''zeta'', [mk_unit ''u1'', mk_unit ''u3''])]"

text \<open>A repository with two units of one type.\<close>

definition one_type_storage :: storage where
  "one_type_storage =
     mem_storage [mk_assoc ''rpm'' ''u1'' 1, mk_assoc ''rpm'' ''u2'' 2]
       [(''rpm'', [mk_unit ''u1'', mk_unit ''u2''])]"

section \<open>Properties\<close>

subsection \<open>The skip and limit adapter\<close>

lemma with_skip_and_limit_invalid:
  "\<not> valid_arg s \<or> \<not> valid_arg l \<Longrightarrow> with_skip_and_limit g s l = ([], Some AssertionError)"
  by (auto simp add: with_skip_and_limit_def)

text \<open>
  What the adapter computes on a list, for a skip \<open>s\<close> and a limit \<open>l\<close> that pass the
  assertions: everything after the first \<open>s\<close> elements when \<open>l\<close> is 0, and otherwise the
  first \<open>s + l\<close> of the elements after the first \<open>s\<close>.
\<close>

lemma skip_limit_loop_no_limit:
  "skip_limit_loop (PyInt s) (PyInt 0) g s (map Yield xs) None = (map Yield xs, None)"
  by (induction xs arbitrary: g) (simp_all add: truthy_def int_of_def emit_def)

lemma skip_limit_loop_limit:
  "l \<noteq> 0 \<Longrightarrow> g \<le> s + l \<Longrightarrow>
     skip_limit_loop (PyInt s) (PyInt l) g s (map Yield xs) None
       = (map Yield (take (nat (s + l - g)) xs), None)"
proof (induction xs arbitrary: g)
  case Nil
  then show ?case by simp
next
  case (Cons x xs)
  show ?case
  proof (cases "g - s = l")
    case True
    with Cons.prems show ?thesis by (simp add: truthy_def int_of_def)
  next
    case False
    with Cons.prems have g: "g + 1 \<le> s + l" by simp
    then have "nat (s + l - g) = Suc (nat (s + l - (g + 1)))" by simp
    with False Cons.IH [OF Cons.prems(1) g] show ?thesis
      by (simp add: truthy_def int_of_def emit_def)
  qed
qed

lemma skip_limit_loop_skipping:
  "0 \<le> k \<Longrightarrow> k \<le> s \<Longrightarrow> 0 \<le> l \<Longrightarrow>
     skip_limit_loop (PyInt s) (PyInt l) 0 k (map Yield xs) None
       = skip_limit_loop (PyInt s) (PyInt l) 0 s (map Yield (drop (nat (s - k)) xs)) None"
proof (induction xs arbitrary: k)
  case Nil
  then show ?case by simp
next
  case (Cons x xs)
  show ?case
  proof (cases "k = s")
    case True
    then show ?thesis by simp
  next
    case False
    with Cons.prems have lt: "k < s" by simp
    then have d: "nat (s - k) = Suc (nat (s - (k + 1)))" by simp
    have nostop: "(truthy (PyInt l) \<and> 0 - k = int_of (PyInt l)) = False"
      using Cons.prems by (auto simp: truthy_def int_of_def)
    have sk: "(truthy (PyInt s) \<and> k < int_of (PyInt s)) = True"
      using lt Cons.prems by (auto simp: truthy_def int_of_def)
    from Cons.IH [of "k + 1"] Cons.prems lt
    have "skip_limit_loop (PyInt s) (PyInt l) 0 (k + 1) (map Yield xs) None
        = skip_limit_loop (PyInt s) (PyInt l) 0 s (map Yield (drop (nat (s - (k + 1))) xs)) None"
      by simp
    then show ?thesis
      unfolding d list.map skip_limit_loop.simps nostop sk drop_Suc_Cons by simp
  qed
qed

lemma with_skip_and_limit_list:
  assumes "0 \<le> s" "0 \<le> l"
  shows "with_skip_and_limit (gen_of_list xs) (PyInt s) (PyInt l)
       = gen_of_list (if l = 0 then drop (nat s) xs else take (nat (s + l)) (drop (nat s) xs))"
proof -
  have "with_skip_and_limit (gen_of_list xs) (PyInt s) (PyInt l)
      = skip_limit_loop (PyInt s) (PyInt l) 0 0 (map Yield xs) None"
    using assms by (simp add: with_skip_and_limit_def valid_arg_def gen_of_list_def)
  also have "\<dots> = skip_limit_loop (PyInt s) (PyInt l) 0 s (map Yield (drop (nat s) xs)) None"
    using skip_limit_loop_skipping [of 0 s l xs] assms by simp
  also have "\<dots> = gen_of_list (if l = 0 then drop (nat s) xs else take (nat (s + l)) (drop (nat s) xs))"
  proof (cases "l = 0")
    case True
    then show ?thesis by (simp add: skip_limit_loop_no_limit gen_of_list_def)
  next
    case False
    with skip_limit_loop_limit [of l 0 s "drop (nat s) xs"] assms
    show ?thesis by (simp add: gen_of_list_def)
  qed
  finally show ?thesis .
qed

text \<open>
  C1 (fails on the code). The claim: for skip \<open>s\<close> and limit \<open>l\<close> the adapter yields
  \<open>input[s : s+l]\<close>, so that skip 1 and limit 1 over \<open>[a, b, c]\<close> give \<open>[b]\<close>. The loop
  compares \<^verbatim>\<open>generated_elements - skipped_elements\<close> with the limit, so after skipping
  one element it stops only once two have been generated: it yields \<open>[b, c]\<close>.
  (A limit of 0 is false in the test and never stops the loop.)
\<close>

theorem with_skip_and_limit_skip1_limit1:
  "with_skip_and_limit (gen_of_list [''a'', ''b'', ''c'']) (PyInt 1) (PyInt 1)
     = gen_of_list [''b'', ''c'']"
  by (simp add: with_skip_and_limit_def yielded_def gen_of_list_def emit_def
        valid_arg_def truthy_def int_of_def)

subsection \<open>The chain of the per-type cursors\<close>

lemma cursors_by_type_elements:
  "elements (cursors_by_type st c ids ts)
     = map (\<lambda>t. CursorObj (snd (associated_units_by_type_cursor st t c ids))) ts"
proof (induction ts)
  case Nil
  show ?case by simp
next
  case (Cons t ts)
  have "elements (map Call cs @ evs) = elements evs" for cs and evs :: "item event list"
    by (induction cs) simp_all
  with Cons show ?case by (simp add: Let_def)
qed

lemma chained_units_elements:
  "yielded (chained_units st c ids ts)
     = map (\<lambda>t. CursorObj (snd (associated_units_by_type_cursor st t c ids))) ts"
  by (simp add: chained_units_def yielded_def cursors_by_type_elements)

text \<open>
  C2 (fails on the code). The claim: the chained stream of \<^verbatim>\<open>get_units\<close> yields the unit
  records of all types, one type after the other. \<^verbatim>\<open>itertools.chain\<close> is given the
  generator of the cursors as its only iterable, so the stream yields the cursors
  themselves: for the repository with one unit of type alpha and two of type zeta it has
  two elements, both cursor objects, and no unit record.
\<close>

theorem chained_units_yields_cursor_objects:
  "yielded (chained_units two_type_storage plain_criteria [''u1'', ''u2'', ''u3'']
              [''alpha'', ''zeta''])
     = [CursorObj \<lparr>c_collection = TypeUnits ''alpha'',
                   c_spec = [(''_id'', BIn [''u1'', ''u2'', ''u3''])],
                   c_fields = None, c_sort = [(''name'', ASCENDING)]\<rparr>,
        CursorObj \<lparr>c_collection = TypeUnits ''zeta'',
                   c_spec = [(''_id'', BIn [''u1'', ''u2'', ''u3''])],
                   c_fields = None, c_sort = [(''name'', ASCENDING)]\<rparr>]"
  by code_simp

text \<open>
  In \<^verbatim>\<open>get_units\<close> the first element pulled from that stream is the cursor of the first
  type, which the merger indexes by \<^verbatim>\<open>'_id'\<close>.
\<close>

lemma get_units_two_types_raises:
  "returned (get_units two_type_storage ''repo-1'' None False) = Raised TypeError"
  by code_simp

subsection \<open>The merger\<close>

lemma merged_loop_prefix:
  assumes "\<forall>p\<in>set pre. map_of by_id (u_id (fst p)) = Some (snd p)"
    and "map_of by_id (u_id u) = None"
  shows "merged_loop by_id (map Yield (map (\<lambda>p. UnitDoc (fst p)) pre @ UnitDoc u # post)) err
       = (map (\<lambda>p. Yield ((snd p)\<lparr>metadata := Some (UnitDoc (fst p))\<rparr>)) pre,
          Some (KeyError (u_id u)))"
  using assms by (induction pre) (simp_all add: item_id_def emit_def)

lemma merged_units_raised: "merged_units m ([], Some e) = ([], Some e)"
  by (simp add: merged_units_def)

text \<open>
  C3, as stated, fails: a unit whose id is not in the map does not only drop that unit.
  With associations for \<open>u1\<close> and \<open>u3\<close> and the units \<open>u1, u2, u3\<close>, the merger yields
  the record of \<open>u1\<close> and ends with \<^verbatim>\<open>KeyError\<close> for \<open>u2\<close>; the record of \<open>u3\<close> is never
  produced.
\<close>

theorem merged_units_missing_id_ends_stream:
  "merged_units [(''u1'', mk_assoc ''rpm'' ''u1'' 1), (''u3'', mk_assoc ''rpm'' ''u3'' 3)]
     (gen_of_list [UnitDoc (mk_unit ''u1''), UnitDoc (mk_unit ''u2''), UnitDoc (mk_unit ''u3'')])
   = ([Yield ((mk_assoc ''rpm'' ''u1'' 1)\<lparr>metadata := Some (UnitDoc (mk_unit ''u1''))\<rparr>)],
      Some (KeyError ''u2''))"
  by code_simp

text \<open>
  C3, amended: when the units \<open>pre\<close> all have their association in the map and the next
  unit \<open>u\<close> has none, the merger yields the merged records of \<open>pre\<close>, in order, and then
  raises \<^verbatim>\<open>KeyError\<close> for the id of \<open>u\<close>, which ends the stream: whatever follows \<open>u\<close>
  in the input is not produced.
\<close>

theorem merged_units_stops_at_missing_id:
  assumes "\<forall>p\<in>set pre. map_of by_id (u_id (fst p)) = Some (snd p)"
    and "map_of by_id (u_id u) = None"
  shows "merged_units by_id (gen_of_list (map (\<lambda>p. UnitDoc (fst p)) pre @ UnitDoc u # post))
       = (map (\<lambda>p. Yield ((snd p)\<lparr>metadata := Some (UnitDoc (fst p))\<rparr>)) pre,
          Some (KeyError (u_id u)))"
  using merged_loop_prefix [OF assms] by (simp add: merged_units_def gen_of_list_def)

text \<open>C3, amended, at the input of the example above.\<close>

theorem merged_units_stops_at_missing_id_witness:
  "map_of [(''u1'', mk_assoc ''rpm'' ''u1'' 1), (''u3'', mk_assoc ''rpm'' ''u3'' 3)]
        (u_id (mk_unit ''u1'')) = Some (mk_assoc ''rpm'' ''u1'' 1)
   \<and> map_of [(''u1'', mk_assoc ''rpm'' ''u1'' 1), (''u3'', mk_assoc ''rpm'' ''u3'' 3)]
        (u_id (mk_unit ''u2'')) = None
   \<and> merged_units [(''u1'', mk_assoc ''rpm'' ''u1'' 1), (''u3'', mk_assoc ''rpm'' ''u3'' 3)]
        (gen_of_list [UnitDoc (mk_unit ''u1''), UnitDoc (mk_unit ''u2''),
                      UnitDoc (mk_unit ''u3'')])
      = ([Yield ((mk_assoc ''rpm'' ''u1'' 1)\<lparr>metadata := Some (UnitDoc (mk_unit ''u1''))\<rparr>)],
         Some (KeyError (u_id (mk_unit ''u2''))))"
proof -
  let ?by_id = "[(''u1'', mk_assoc ''rpm'' ''u1'' 1), (''u3'', mk_assoc ''rpm'' ''u3'' 3)]"
  have h0: "map_of ?by_id (u_id (mk_unit ''u1'')) = Some (mk_assoc ''rpm'' ''u1'' 1)"
    by (simp add: mk_unit_def)
  then have h1: "\<forall>p\<in>set [(mk_unit ''u1'', mk_assoc ''rpm'' ''u1'' 1)].
      map_of ?by_id (u_id (fst p)) = Some (snd p)"
    by simp
  have h2: "map_of ?by_id (u_id (mk_unit ''u2'')) = None"
    by (simp add: mk_unit_def)
  from h0 h2 merged_units_stops_at_missing_id [OF h1 h2, of "[UnitDoc (mk_unit ''u3'')]"]
  show ?thesis by simp
qed

subsection \<open>The association-order reconciler\<close>

lemma units_by_id_docs:
  "units_by_id (map Yield (map UnitDoc ds)) None m = ([], Inr (index_units ds m))"
  by (induction ds arbitrary: m) (simp_all add: item_id_def index_units_def)

lemma index_units_dom: "dom (index_units ds m) = dom m \<union> u_id ` set ds"
  by (induction ds arbitrary: m) (auto simp: index_units_def)

lemma index_units_val:
  "index_units ds m k = Some v
     \<Longrightarrow> m k = Some v \<or> (v \<in> UnitDoc ` set ds \<and> item_id v = Inr k)"
proof (induction ds arbitrary: m)
  case Nil
  then show ?case by (simp add: index_units_def)
next
  case (Cons d ds)
  from Cons.prems have "index_units ds (m(u_id d \<mapsto> UnitDoc d)) k = Some v"
    by (simp add: index_units_def)
  from Cons.IH [OF this]
  show ?case by (auto simp: item_id_def split: if_splits)
qed

lemma ordered_loop_elems:
  "v \<in> set (elements (fst (ordered_loop m ids))) \<Longrightarrow> \<exists>k. m k = Some v"
  by (induction ids) (auto simp: emit_def split: option.splits)

lemma ordered_loop_all:
  assumes inv: "\<And>k v. m k = Some v \<Longrightarrow> item_id v = Inr k"
    and present: "set ids \<subseteq> dom m"
  shows "snd (ordered_loop m ids) = None
       \<and> map item_id (elements (fst (ordered_loop m ids))) = map Inr ids"
  using present by (induction ids) (auto simp: emit_def inv split: option.splits)

lemma ordered_loop_stop:
  assumes inv: "\<And>k v. m k = Some v \<Longrightarrow> item_id v = Inr k"
    and present: "set pre \<subseteq> dom m"
    and absent: "m k = None"
  shows "snd (ordered_loop m (pre @ k # post)) = Some (KeyError k)
       \<and> map item_id (elements (fst (ordered_loop m (pre @ k # post)))) = map Inr pre"
  using present absent by (induction pre) (auto simp: emit_def inv split: option.splits)

lemma association_ordered_units_docs:
  "association_ordered_units ids (gen_of_list (map UnitDoc ds))
     = ordered_loop (index_units ds Map.empty) ids"
  unfolding association_ordered_units_def gen_of_list_def fst_conv snd_conv units_by_id_docs
  by simp

lemma association_ordered_units_raised:
  "association_ordered_units ids ([], Some e) = ([], Some e)"
  by (simp add: association_ordered_units_def)

text \<open>
  C4, as stated, fails: an id that was requested but has no unit in the materialized
  stream is not skipped. With the requested ids \<open>u1, u2, u3\<close> and the units \<open>u3, u1\<close>,
  the reconciler yields \<open>u1\<close> and ends with \<^verbatim>\<open>KeyError\<close> for \<open>u2\<close>; \<open>u3\<close>, which is
  present, is never produced.
\<close>

theorem association_ordered_units_missing_id_raises:
  "association_ordered_units [''u1'', ''u2'', ''u3'']
     (gen_of_list [UnitDoc (mk_unit ''u3''), UnitDoc (mk_unit ''u1'')])
   = ([Yield (UnitDoc (mk_unit ''u1''))], Some (KeyError ''u2''))"
  by code_simp

text \<open>
  C4, amended: the reconciler only yields units of the materialized stream (it never
  makes up a record); when every requested id has a unit in the stream it raises nothing
  and yields one unit for each requested id, in the requested order; when the requested
  ids \<open>pre\<close> have a unit and the next requested id \<open>k\<close> has none, it yields the units of
  \<open>pre\<close>, in order, and then raises \<^verbatim>\<open>KeyError\<close> for \<open>k\<close>, which ends the stream.
\<close>

theorem association_ordered_units_requested_order:
  "set (yielded (association_ordered_units ids (gen_of_list (map UnitDoc ds))))
     \<subseteq> UnitDoc ` set ds
   \<and> (set ids \<subseteq> u_id ` set ds \<longrightarrow>
        raised (association_ordered_units ids (gen_of_list (map UnitDoc ds))) = None
        \<and> map item_id (yielded (association_ordered_units ids (gen_of_list (map UnitDoc ds))))
            = map Inr ids)
   \<and> (set pre \<subseteq> u_id ` set ds \<and> k \<notin> u_id ` set ds \<longrightarrow>
        raised (association_ordered_units (pre @ k # post) (gen_of_list (map UnitDoc ds)))
            = Some (KeyError k)
        \<and> map item_id
              (yielded (association_ordered_units (pre @ k # post)
                          (gen_of_list (map UnitDoc ds))))
            = map Inr pre)"
proof -
  let ?m = "index_units ds Map.empty"
  have inv: "item_id v = Inr j" if "?m j = Some v" for j v
    using index_units_val [OF that] by simp
  have dom: "dom ?m = u_id ` set ds"
    by (simp add: index_units_dom)
  have sub: "set (yielded (association_ordered_units ids (gen_of_list (map UnitDoc ds))))
               \<subseteq> UnitDoc ` set ds"
  proof
    fix v
    assume "v \<in> set (yielded (association_ordered_units ids (gen_of_list (map UnitDoc ds))))"
    then have "v \<in> set (elements (fst (ordered_loop ?m ids)))"
      by (simp add: yielded_def association_ordered_units_docs)
    then obtain j where "?m j = Some v"
      using ordered_loop_elems by blast
    from index_units_val [OF this] show "v \<in> UnitDoc ` set ds" by simp
  qed
  have all: "raised (association_ordered_units ids (gen_of_list (map UnitDoc ds))) = None
           \<and> map item_id (yielded (association_ordered_units ids (gen_of_list (map UnitDoc ds))))
               = map Inr ids"
    if "set ids \<subseteq> u_id ` set ds"
    using ordered_loop_all [of ?m ids] inv that dom
    by (simp add: yielded_def raised_def association_ordered_units_docs)
  have stop: "raised (association_ordered_units (pre @ k # post) (gen_of_list (map UnitDoc ds)))
               = Some (KeyError k)
           \<and> map item_id
               (yielded (association_ordered_units (pre @ k # post)
                           (gen_of_list (map UnitDoc ds))))
               = map Inr pre"
    if "set pre \<subseteq> u_id ` set ds" "k \<notin> u_id ` set ds"
  proof -
    from that(2) dom have "?m k = None" by blast
    with ordered_loop_stop [of ?m pre k post] inv that(1) dom
    show ?thesis
      by (simp add: yielded_def raised_def association_ordered_units_docs)
  qed
  from sub all stop show ?thesis by blast
qed

text \<open>
  C4, amended, at two inputs: the requested ids \<open>u1, u3\<close> over the units \<open>u3, u1\<close> (all
  present), and the requested ids \<open>u1, u2, u3\<close> over the same units (\<open>u2\<close> absent).
\<close>

theorem association_ordered_units_requested_order_witness:
  "set [''u1'', ''u3''] \<subseteq> u_id ` set [mk_unit ''u3'', mk_unit ''u1'']
   \<and> raised (association_ordered_units [''u1'', ''u3'']
               (gen_of_list (map UnitDoc [mk_unit ''u3'', mk_unit ''u1'']))) = None
   \<and> map item_id (yielded (association_ordered_units [''u1'', ''u3'']
               (gen_of_list (map UnitDoc [mk_unit ''u3'', mk_unit ''u1'']))))
        = map Inr [''u1'', ''u3'']
   \<and> set [''u1''] \<subseteq> u_id ` set [mk_unit ''u3'', mk_unit ''u1'']
   \<and> ''u2'' \<notin> u_id ` set [mk_unit ''u3'', mk_unit ''u1'']
   \<and> raised (association_ordered_units ([''u1''] @ ''u2'' # [''u3''])
               (gen_of_list (map UnitDoc [mk_unit ''u3'', mk_unit ''u1'']))) = Some (KeyError ''u2'')
   \<and> map item_id (yielded (association_ordered_units ([''u1''] @ ''u2'' # [''u3''])
               (gen_of_list (map UnitDoc [mk_unit ''u3'', mk_unit ''u1'']))))
        = map Inr [''u1'']"
proof -
  have h1: "set [''u1'', ''u3''] \<subseteq> u_id ` set [mk_unit ''u3'', mk_unit ''u1'']"
    by (simp add: mk_unit_def)
  have h2: "set [''u1''] \<subseteq> u_id ` set [mk_unit ''u3'', mk_unit ''u1'']"
    by (simp add: mk_unit_def)
  have h3: "''u2'' \<notin> u_id ` set [mk_unit ''u3'', mk_unit ''u1'']"
    by (simp add: mk_unit_def)
  from h1 h2 h3
    association_ordered_units_requested_order
      [of "[''u1'', ''u3'']" "[mk_unit ''u3'', mk_unit ''u1'']" "[''u1'']" "''u2''" "[''u3'']"]
  show ?thesis by blast
qed

subsection \<open>The sort of the association cursor\<close>



subsection \<open>Validation of skip and limit in \<^verbatim>\<open>get_units\<close>\<close>

lemma unit_associations_cursor_frame:
  "(criteria_after (unit_associations_cursor repo c))\<lparr>association_sort := association_sort c\<rparr>
     = c"
  by (simp add: unit_associations_cursor_def Let_def)

lemma unit_associations_cursor_keeps:
  "skip (criteria_after (unit_associations_cursor repo c)) = skip c"
  "limit (criteria_after (unit_associations_cursor repo c)) = limit c"
  "type_ids (criteria_after (unit_associations_cursor repo c)) = type_ids c"
  by (simp_all add: unit_associations_cursor_def Let_def)

lemma unit_type_ids_used_cong:
  "type_ids c' = type_ids c \<Longrightarrow> unit_type_ids_used st repo c' = unit_type_ids_used st repo c"
  by (simp add: unit_type_ids_used_def)

lemma unit_type_ids_used_collection:
  "cl \<in> set (fst (unit_type_ids_used st repo c)) \<Longrightarrow> call_collection cl = RepoContentUnit"
  by (auto simp: unit_type_ids_used_def unit_type_ids_for_repo_def Let_def split: if_splits)

lemma unit_associations_cursor_calls:
  "calls_made (unit_associations_cursor repo c)
     = [Find RepoContentUnit (c_spec (returned (unit_associations_cursor repo c)))
          (association_fields c),
        Sort RepoContentUnit (c_sort (returned (unit_associations_cursor repo c)))]"
  by (simp add: unit_associations_cursor_def Let_def)

lemma get_units_invalid:
  assumes "\<not> valid_arg (skip c) \<or> \<not> valid_arg (limit c)"
  shows "get_units st repo (Some c) as_generator
       = \<lparr>criteria_after = criteria_after (unit_associations_cursor repo c),
          calls_made = calls_made (unit_associations_cursor repo c)
                         @ fst (unit_type_ids_used st repo c),
          returned = (if as_generator then Generator ([], Some AssertionError)
                      else Raised AssertionError)\<rparr>"
proof -
  let ?c = "criteria_after (unit_associations_cursor repo c)"
  have bad: "with_skip_and_limit g (skip ?c) (limit ?c) = ([], Some AssertionError)" for g :: "item gen"
    using assms by (intro with_skip_and_limit_invalid) (simp add: unit_associations_cursor_keeps)
  have types: "unit_type_ids_used st repo ?c = unit_type_ids_used st repo c"
    by (rule unit_type_ids_used_cong) (rule unit_associations_cursor_keeps)
  show ?thesis
    unfolding get_units_def Let_def option.case bad types
    by (simp add: association_ordered_units_raised merged_units_raised)
qed

text \<open>
  C5, as stated, fails: a negative skip does not stop \<^verbatim>\<open>get_units\<close> before the storage is
  reached, and the failure is an \<^verbatim>\<open>AssertionError\<close>. With skip \<open>-1\<close> on the repository
  of the examples, the association collection has been queried and sorted, and the
  type ids have been read from it, before the assertion of the adapter fails.
\<close>

theorem get_units_negative_skip_after_queries:
  "returned (get_units two_type_storage ''repo-1''
               (Some (plain_criteria\<lparr>skip := PyInt (- 1)\<rparr>)) False)
     = Raised AssertionError
   \<and> calls_made (get_units two_type_storage ''repo-1''
                   (Some (plain_criteria\<lparr>skip := PyInt (- 1)\<rparr>)) False)
     = [Find RepoContentUnit [(''repo_id'', BStr ''repo-1'')] None,
        Sort RepoContentUnit [(''created'', ASCENDING)],
        Find RepoContentUnit [(''repo_id'', BStr ''repo-1'')] (Some [''unit_type_id'']),
        Distinct RepoContentUnit ''unit_type_id'']"
  by code_simp

text \<open>
  C5, amended: when skip or limit is negative or not an integer, \<^verbatim>\<open>get_units\<close> asked for
  a list raises \<^verbatim>\<open>AssertionError\<close>, from the assertions of the skip and limit adapter,
  and \<^verbatim>\<open>get_units\<close> asked for a generator returns one that raises it at the first pull
  without yielding anything. By then the association collection has been queried: the
  first two storage calls are the \<^verbatim>\<open>find\<close> and the \<^verbatim>\<open>sort\<close> of the association cursor,
  followed by the calls that find the type ids; no call is made against a unit
  collection.
\<close>

theorem get_units_invalid_pagination:
  assumes "\<not> valid_arg (skip c) \<or> \<not> valid_arg (limit c)"
  shows "returned (get_units st repo (Some c) False) = Raised AssertionError
       \<and> returned (get_units st repo (Some c) True) = Generator ([], Some AssertionError)
       \<and> calls_made (get_units st repo (Some c) False)
           = Find RepoContentUnit (c_spec (returned (unit_associations_cursor repo c)))
               (association_fields c)
             # Sort RepoContentUnit (c_sort (returned (unit_associations_cursor repo c)))
             # fst (unit_type_ids_used st repo c)
       \<and> (\<forall>cl\<in>set (calls_made (get_units st repo (Some c) False)).
             call_collection cl = RepoContentUnit)"
  using unit_type_ids_used_collection [of _ st repo c]
  by (auto simp add: get_units_invalid [OF assms] unit_associations_cursor_calls)

text \<open>C5, amended, at the input of the example above.\<close>

theorem get_units_invalid_pagination_witness:
  "\<not> valid_arg (skip (plain_criteria\<lparr>skip := PyInt (- 1)\<rparr>))
   \<and> returned (get_units two_type_storage ''repo-1''
                 (Some (plain_criteria\<lparr>skip := PyInt (- 1)\<rparr>)) False)
       = Raised AssertionError
   \<and> returned (get_units two_type_storage ''repo-1''
                 (Some (plain_criteria\<lparr>skip := PyInt (- 1)\<rparr>)) True)
       = Generator ([], Some AssertionError)"
proof -
  have h0: "\<not> valid_arg (skip (plain_criteria\<lparr>skip := PyInt (- 1)\<rparr>))"
    by (simp add: valid_arg_def)
  then have h: "\<not> valid_arg (skip (plain_criteria\<lparr>skip := PyInt (- 1)\<rparr>))
      \<or> \<not> valid_arg (limit (plain_criteria\<lparr>skip := PyInt (- 1)\<rparr>))"
    by (rule disjI1)
  from h0 get_units_invalid_pagination [OF h, of two_type_storage "''repo-1''"]
  show ?thesis by blast
qed

subsection \<open>What the calls do to the criteria\<close>

lemma get_units_criteria_after:
  "criteria_after (get_units st repo (Some c) as_generator)
     = criteria_after (unit_associations_cursor repo c)"
  by (simp add: get_units_def Let_def)

text \<open>
  C9, as stated, fails: \<^verbatim>\<open>get_units_by_type\<close> assigns \<^verbatim>\<open>criteria.type_ids\<close> on the object
  the caller passed. A criteria asking for type alpha, given to a query for type zeta,
  asks for type zeta afterwards.
\<close>

theorem get_units_by_type_overwrites_type_ids:
  "type_ids (criteria_after (get_units_by_type two_type_storage ''repo-1'' ''zeta''
               (Some (plain_criteria\<lparr>type_ids := [''alpha'']\<rparr>)) False))
     = [''zeta'']"
  by code_simp

text \<open>
  C9, amended: \<^verbatim>\<open>get_units\<close> and \<^verbatim>\<open>get_units_across_types\<close> leave every attribute of the
  caller's criteria other than \<open>association_sort\<close> as it was; \<^verbatim>\<open>get_units_by_type\<close> sets
  \<open>type_ids\<close> to the list of the one type asked for and leaves every attribute other than
  \<open>type_ids\<close> and \<open>association_sort\<close> as it was. (Nothing is said about
  \<open>association_sort\<close>.)
\<close>

theorem criteria_frame:
  "(criteria_after (get_units st repo (Some c) as_generator))
      \<lparr>association_sort := association_sort c\<rparr> = c
   \<and> (criteria_after (get_units_across_types st repo (Some c) as_generator))
      \<lparr>association_sort := association_sort c\<rparr> = c
   \<and> (criteria_after (get_units_by_type st repo type_id (Some c) as_generator))
      \<lparr>association_sort := association_sort c\<rparr> = c\<lparr>type_ids := [type_id]\<rparr>"
proof -
  have "(criteria_after (unit_associations_cursor repo (c\<lparr>type_ids := [type_id]\<rparr>)))
          \<lparr>association_sort := association_sort c\<rparr> = c\<lparr>type_ids := [type_id]\<rparr>"
    using unit_associations_cursor_frame [where c = "c\<lparr>type_ids := [type_id]\<rparr>"] by simp
  then show ?thesis
    by (simp add: get_units_across_types_def get_units_by_type_def get_units_criteria_after
          unit_associations_cursor_frame)
qed

subsection \<open>The deduplicator\<close>






text \<open>
  The joined key tells two associations apart as soon as no type id contains the
  separator.
\<close>

lemma association_id_inj:
  assumes "CHR ''+'' \<notin> set (unit_type_id a)" "CHR ''+'' \<notin> set (unit_type_id b)"
    and "association_id a = association_id b"
  shows "identity_key a = identity_key b"
proof -
  let ?p = "\<lambda>c. c \<noteq> CHR ''+''"
  from assms(3)
  have eq: "unit_type_id a @ CHR ''+'' # unit_id a = unit_type_id b @ CHR ''+'' # unit_id b"
    by (simp add: association_id_def)
  have "takeWhile ?p (unit_type_id a @ CHR ''+'' # unit_id a) = unit_type_id a"
    using assms(1) by (auto simp add: takeWhile_tail)
  moreover have "takeWhile ?p (unit_type_id b @ CHR ''+'' # unit_id b) = unit_type_id b"
    using assms(2) by (auto simp add: takeWhile_tail)
  ultimately have "unit_type_id a = unit_type_id b" using eq by simp
  with eq show ?thesis by (simp add: identity_key_def)
qed




text \<open>
  C10: the association of type \<open>a+b\<close> with unit \<open>c\<close> and the association of type \<open>a\<close>
  with unit \<open>b+c\<close> have different \<open>(type_id, unit_id)\<close> keys and the same joined key
  \<open>a+b+c\<close>, and on the stream of the two, in the order of \<open>created\<close>, the deduplicator
  yields the first and drops the second.
\<close>

theorem association_id_collision:
  "identity_key (mk_assoc ''a+b'' ''c'' 1) = (''a+b'', ''c'')
   \<and> identity_key (mk_assoc ''a'' ''b+c'' 2) = (''a'', ''b+c'')
   \<and> identity_key (mk_assoc ''a+b'' ''c'' 1) \<noteq> identity_key (mk_assoc ''a'' ''b+c'' 2)
   \<and> association_id (mk_assoc ''a+b'' ''c'' 1) = ''a+b+c''
   \<and> association_id (mk_assoc ''a'' ''b+c'' 2) = ''a+b+c''
   \<and> created (mk_assoc ''a+b'' ''c'' 1) < created (mk_assoc ''a'' ''b+c'' 2)
   \<and> yielded (unit_associations_no_duplicates
        (gen_of_list [mk_assoc ''a+b'' ''c'' 1, mk_assoc ''a'' ''b+c'' 2]))
      = [mk_assoc ''a+b'' ''c'' 1]"
  by code_simp

subsection \<open>The type ids queried by \<^verbatim>\<open>get_units\<close>\<close>

lemma unit_type_ids_used_discovered:
  "type_ids c = [] \<Longrightarrow>
     snd (unit_type_ids_used st repo c)
       = sort (map unit_type_id
           (assoc_docs st \<lparr>c_collection = RepoContentUnit, c_spec = [(''repo_id'', BStr repo)],
                            c_fields = Some [''unit_type_id''], c_sort = []\<rparr>))"
  by (simp add: unit_type_ids_used_def unit_type_ids_for_repo_def)

text \<open>
  C8 (fails on the code). The claim: with no type ids in the criteria, each type with an
  association in the repository is queried once, in ascending order.
  \<^verbatim>\<open>_unit_type_ids_for_repo\<close> drops the result of \<^verbatim>\<open>distinct\<close> and lists the type id of
  every association document, so a repository with two units of type \<open>rpm\<close> has the
  type list \<open>[rpm, rpm]\<close>.
\<close>

theorem unit_type_ids_used_repeats_type:
  "snd (unit_type_ids_used one_type_storage ''repo-1'' plain_criteria) = [''rpm'', ''rpm'']"
  by code_simp

end
